theory Spec2Isabelle
  imports
    Complex_Main
    "HOL-Library.Multiset"
    "HOL-Library.Char_ord"
    "HOL-Library.List_Lexorder"
begin

section \<open>Native values\<close>

text \<open>
  Go's \<^verbatim>\<open>float64\<close>, as far as the series operations look at it: the NaN, the two
  infinities and the finite values. Finite arithmetic is exact (no rounding, no overflow
  to an infinity) and the two zeros are one value.
\<close>

datatype float64 = math_NaN | NegInf | Fin real | PosInf

text \<open>\<^verbatim>\<open>a < b\<close> on \<^verbatim>\<open>float64\<close>: false as soon as one side is NaN.\<close>

fun flt :: "float64 \<Rightarrow> float64 \<Rightarrow> bool" where
  "flt math_NaN b = False"
| "flt a math_NaN = False"
| "flt NegInf NegInf = False"
| "flt NegInf b = True"
| "flt (Fin a) NegInf = False"
| "flt (Fin a) (Fin b) = (a < b)"
| "flt (Fin a) PosInf = True"
| "flt PosInf b = False"

text \<open>\<^verbatim>\<open>a == b\<close> on \<^verbatim>\<open>float64\<close>: NaN is not equal to itself.\<close>

fun feq :: "float64 \<Rightarrow> float64 \<Rightarrow> bool" where
  "feq math_NaN b = False"
| "feq a math_NaN = False"
| "feq a b = (a = b)"

text \<open>\<^verbatim>\<open>a + b\<close> on \<^verbatim>\<open>float64\<close>.\<close>

fun fadd :: "float64 \<Rightarrow> float64 \<Rightarrow> float64" where
  "fadd math_NaN b = math_NaN"
| "fadd a math_NaN = math_NaN"
| "fadd (Fin a) (Fin b) = Fin (a + b)"
| "fadd PosInf NegInf = math_NaN"
| "fadd NegInf PosInf = math_NaN"
| "fadd PosInf b = PosInf"
| "fadd NegInf b = NegInf"
| "fadd (Fin a) b = b"

text \<open>\<^verbatim>\<open>a * b\<close> on \<^verbatim>\<open>float64\<close>.\<close>

fun fneg :: "float64 \<Rightarrow> float64" where
  "fneg math_NaN = math_NaN"
| "fneg NegInf = PosInf"
| "fneg PosInf = NegInf"
| "fneg (Fin a) = Fin (- a)"

fun fmul :: "float64 \<Rightarrow> float64 \<Rightarrow> float64" where
  "fmul math_NaN b = math_NaN"
| "fmul a math_NaN = math_NaN"
| "fmul (Fin a) (Fin b) = Fin (a * b)"
| "fmul (Fin a) b = (if a = 0 then math_NaN else if 0 < a then b else fneg b)"
| "fmul a (Fin b) = (if b = 0 then math_NaN else if 0 < b then a else fneg a)"
| "fmul PosInf b = b"
| "fmul NegInf b = fneg b"

text \<open>
  \<^verbatim>\<open>float64(i) / float64(length)\<close> for two Go ints: a division by zero gives an
  infinity, or NaN for \<^verbatim>\<open>0/0\<close>.
\<close>

definition fdiv_int :: "int \<Rightarrow> int \<Rightarrow> float64" where
  "fdiv_int i n =
     (if n = 0 then (if i = 0 then math_NaN else if 0 < i then PosInf else NegInf)
      else Fin (real_of_int i / real_of_int n))"

text \<open>A Go panic: the run ends there, no value and no error-bearing series is returned.\<close>

datatype panic = index_out_of_range | slice_bounds_out_of_range | panic_message string

section \<open>Elements\<close>

datatype Type = StringT | IntT | FloatT | BoolT

text \<open>
  Modelled from the spec: the four element variants (the Go types \<^verbatim>\<open>stringElement\<close>,
  \<^verbatim>\<open>intElement\<close>, \<^verbatim>\<open>floatElement\<close>, \<^verbatim>\<open>boolElement\<close> are declared outside
  \<^verbatim>\<open>series.go\<close>). Each stores its native value and can be missing: Float by the
  NaN value, the other three by a marker of the slot, here \<open>None\<close>.
\<close>

datatype Element =
    stringElement "string option"
  | intElement "int option"
  | floatElement float64
  | boolElement "bool option"

text \<open>Modelled from the spec: \<^verbatim>\<open>Type()\<close>, the variant of an element.\<close>

fun Element_Type :: "Element \<Rightarrow> Type" where
  "Element_Type (stringElement v) = StringT"
| "Element_Type (intElement v) = IntT"
| "Element_Type (floatElement v) = FloatT"
| "Element_Type (boolElement v) = BoolT"

text \<open>Modelled from the spec: \<^verbatim>\<open>IsNA()\<close>, per-kind detection of the missing value.\<close>

fun Element_IsNA :: "Element \<Rightarrow> bool" where
  "Element_IsNA (stringElement v) = (v = None)"
| "Element_IsNA (intElement v) = (v = None)"
| "Element_IsNA (floatElement v) = (v = math_NaN)"
| "Element_IsNA (boolElement v) = (v = None)"

text \<open>
  Modelled from the spec: \<^verbatim>\<open>Less\<close> against an element of the same kind. Int and Float
  compare numerically, String lexicographically, Bool with false below true; a missing
  value is neither less nor greater than anything. A series is homogeneous, so the
  operations below only ever compare elements of one kind; two elements of different
  kinds are left unordered here (the source converts the argument first, through the
  conversions of the construction layer).
\<close>

fun Element_Less :: "Element \<Rightarrow> Element \<Rightarrow> bool" where
  "Element_Less (stringElement (Some a)) (stringElement (Some b)) = (a < b)"
| "Element_Less (intElement (Some a)) (intElement (Some b)) = (a < b)"
| "Element_Less (floatElement a) (floatElement b) = flt a b"
| "Element_Less (boolElement (Some a)) (boolElement (Some b)) = (\<not> a \<and> b)"
| "Element_Less a b = False"

text \<open>Modelled from the spec: \<^verbatim>\<open>Greater\<close>, the mirror image of \<^verbatim>\<open>Less\<close>.\<close>

definition Element_Greater :: "Element \<Rightarrow> Element \<Rightarrow> bool" where
  "Element_Greater a b = Element_Less b a"

text \<open>
  Modelled from the spec: \<^verbatim>\<open>Eq\<close> and the three predicates derived from it and from the
  order. A missing value is equal to nothing.
\<close>

fun Element_Eq :: "Element \<Rightarrow> Element \<Rightarrow> bool" where
  "Element_Eq (stringElement (Some a)) (stringElement (Some b)) = (a = b)"
| "Element_Eq (intElement (Some a)) (intElement (Some b)) = (a = b)"
| "Element_Eq (floatElement a) (floatElement b) = feq a b"
| "Element_Eq (boolElement (Some a)) (boolElement (Some b)) = (a = b)"
| "Element_Eq a b = False"

definition Element_Neq :: "Element \<Rightarrow> Element \<Rightarrow> bool" where
  "Element_Neq a b =
     (if Element_IsNA a \<or> Element_IsNA b then False else \<not> Element_Eq a b)"

definition Element_LessEq :: "Element \<Rightarrow> Element \<Rightarrow> bool" where
  "Element_LessEq a b = (Element_Less a b \<or> Element_Eq a b)"

definition Element_GreaterEq :: "Element \<Rightarrow> Element \<Rightarrow> bool" where
  "Element_GreaterEq a b = (Element_Greater a b \<or> Element_Eq a b)"

text \<open>
  What the series operations take from outside \<^verbatim>\<open>series.go\<close> and the spec leaves to
  its collaborators: the parsing and cross-kind conversions of the construction layer
  and the numeric library (\<^verbatim>\<open>gonum/stat\<close>). They are parameters of the model.
\<close>

record ext =
  ParseFloat :: "string \<Rightarrow> float64"
  ConvInt :: "Element \<Rightarrow> string + int"
  ConvBool :: "Element \<Rightarrow> string + bool"
  Convert :: "Type \<Rightarrow> Element \<Rightarrow> Element"
  stat_Mean :: "float64 list \<Rightarrow> float64"
  stat_StdDev :: "float64 list \<Rightarrow> float64"
  stat_Quantile :: "float64 \<Rightarrow> float64 list \<Rightarrow> panic + float64"

text \<open>
  Modelled from the spec: \<^verbatim>\<open>Float()\<close> always succeeds and is NaN for a missing value.
  Int converts exactly, Bool to 0 and 1, a String through the parser of the
  construction layer.
\<close>

fun Element_Float :: "ext \<Rightarrow> Element \<Rightarrow> float64" where
  "Element_Float x (stringElement None) = math_NaN"
| "Element_Float x (stringElement (Some v)) = ParseFloat x v"
| "Element_Float x (intElement None) = math_NaN"
| "Element_Float x (intElement (Some v)) = Fin (real_of_int v)"
| "Element_Float x (floatElement v) = v"
| "Element_Float x (boolElement None) = math_NaN"
| "Element_Float x (boolElement (Some v)) = (if v then Fin 1 else Fin 0)"

text \<open>
  Modelled from the spec: \<^verbatim>\<open>Int()\<close> and \<^verbatim>\<open>Bool()\<close> fail with a conversion error when
  the stored value cannot be read as that kind; a missing value cannot. Other kinds go
  through the conversions of the construction layer.
\<close>

fun Element_Int :: "ext \<Rightarrow> Element \<Rightarrow> string + int" where
  "Element_Int x (intElement None) = Inl ''can't convert NaN to int''"
| "Element_Int x (intElement (Some v)) = Inr v"
| "Element_Int x e = ConvInt x e"

fun Element_Bool :: "ext \<Rightarrow> Element \<Rightarrow> string + bool" where
  "Element_Bool x (boolElement None) = Inl ''can't convert NaN to bool''"
| "Element_Bool x (boolElement (Some v)) = Inr v"
| "Element_Bool x e = ConvBool x e"

text \<open>Modelled from the spec: the missing value of each kind.\<close>

fun missing :: "Type \<Rightarrow> Element" where
  "missing StringT = stringElement None"
| "missing IntT = intElement None"
| "missing FloatT = floatElement math_NaN"
| "missing BoolT = boolElement None"

text \<open>
  Modelled from the spec: \<^verbatim>\<open>SetElement\<close> replaces the value of a slot of kind \<open>k\<close> by that
  of another element: a copy when the kinds agree, a conversion of the construction layer
  otherwise.
\<close>

definition SetElement :: "ext \<Rightarrow> Type \<Rightarrow> Element \<Rightarrow> Element" where
  "SetElement x k e = (if Element_Type e = k then e else Convert x k e)"

text \<open>
  Modelled from the spec: the setters from native values. The text \<^verbatim>\<open>NaN\<close> is the
  sentinel of the missing value for every kind.
\<close>

definition NaN :: string where
  "NaN = ''NaN''"

definition SetString :: "ext \<Rightarrow> Type \<Rightarrow> string \<Rightarrow> Element" where
  "SetString x k v = (if v = NaN then missing k else SetElement x k (stringElement (Some v)))"

definition SetFloat :: "ext \<Rightarrow> Type \<Rightarrow> float64 \<Rightarrow> Element" where
  "SetFloat x k v = SetElement x k (floatElement v)"

definition SetInt :: "ext \<Rightarrow> Type \<Rightarrow> int \<Rightarrow> Element" where
  "SetInt x k v = SetElement x k (intElement (Some v))"

definition SetBool :: "ext \<Rightarrow> Type \<Rightarrow> bool \<Rightarrow> Element" where
  "SetBool x k v = SetElement x k (boolElement (Some v))"

text \<open>
  The dynamic values \<^verbatim>\<open>Set(interface{})\<close> accepts: nil for the missing value, a native
  value, or another element.
\<close>

datatype Raw = RawNil | RawString string | RawFloat float64 | RawInt int | RawBool bool
  | RawElement Element

fun Element_Set :: "ext \<Rightarrow> Type \<Rightarrow> Raw \<Rightarrow> Element" where
  "Element_Set x k RawNil = missing k"
| "Element_Set x k (RawString v) = SetString x k v"
| "Element_Set x k (RawFloat v) = SetFloat x k v"
| "Element_Set x k (RawInt v) = SetInt x k v"
| "Element_Set x k (RawBool v) = SetBool x k v"
| "Element_Set x k (RawElement v) = SetElement x k v"

section \<open>Series\<close>

record series =
  name :: string
  elements :: "Element list"
  t :: Type
  err :: "string option"

text \<open>Every element of a series belongs to the declared kind of the series.\<close>

definition wf_series :: "series \<Rightarrow> bool" where
  "wf_series s = list_all (\<lambda>e. Element_Type e = t s) (elements s)"

text \<open>\<^verbatim>\<open>e[i]\<close> on a Go slice panics outside \<^verbatim>\<open>[0, len(e))\<close>.\<close>

definition Elements_Elem :: "Element list \<Rightarrow> int \<Rightarrow> panic + Element" where
  "Elements_Elem e i =
     (if 0 \<le> i \<and> i < int (length e) then Inr (e ! nat i) else Inl index_out_of_range)"

definition series_Len :: "series \<Rightarrow> nat" where
  "series_Len s = length (elements s)"

definition series_Type :: "series \<Rightarrow> Type" where
  "series_Type s = t s"

definition series_Elem :: "series \<Rightarrow> int \<Rightarrow> panic + Element" where
  "series_Elem s i =
     (if i < 0 then Elements_Elem (elements s) (int (series_Len s) + i)
      else Elements_Elem (elements s) i)"

text \<open>\<^verbatim>\<open>Float()\<close>, \<^verbatim>\<open>HasNaN()\<close>, \<^verbatim>\<open>Int()\<close> and \<^verbatim>\<open>Bool()\<close> of a series.\<close>

definition series_Float :: "ext \<Rightarrow> series \<Rightarrow> float64 list" where
  "series_Float x s = map (Element_Float x) (elements s)"

definition series_HasNaN :: "series \<Rightarrow> bool" where
  "series_HasNaN s = list_ex Element_IsNA (elements s)"

fun Ints_of :: "ext \<Rightarrow> Element list \<Rightarrow> string + int list" where
  "Ints_of x [] = Inr []"
| "Ints_of x (e # es) =
     (case Element_Int x e of
        Inl msg \<Rightarrow> Inl msg
      | Inr val \<Rightarrow> (case Ints_of x es of Inl msg \<Rightarrow> Inl msg | Inr vals \<Rightarrow> Inr (val # vals)))"

definition series_Int :: "ext \<Rightarrow> series \<Rightarrow> string + int list" where
  "series_Int x s = Ints_of x (elements s)"

fun Bools_of :: "ext \<Rightarrow> Element list \<Rightarrow> string + bool list" where
  "Bools_of x [] = Inr []"
| "Bools_of x (e # es) =
     (case Element_Bool x e of
        Inl msg \<Rightarrow> Inl msg
      | Inr val \<Rightarrow> (case Bools_of x es of Inl msg \<Rightarrow> Inl msg | Inr vals \<Rightarrow> Inr (val # vals)))"

definition series_Bool :: "ext \<Rightarrow> series \<Rightarrow> string + bool list" where
  "series_Bool x s = Bools_of x (elements s)"

subsection \<open>Ordering\<close>

text \<open>
  \<^verbatim>\<open>sort.Stable\<close> of the Go library, by the insertion sort it runs on every block: each
  element in turn moves left for as long as it is less than its left neighbour. The
  sorted prefix is kept reversed, its last element first. (Beyond 20 elements the library
  merges the sorted blocks with a stable merge; for an order where ties are equal values
  the outcome is the same list.)
\<close>

fun insert_left :: "('a \<Rightarrow> 'a \<Rightarrow> bool) \<Rightarrow> 'a \<Rightarrow> 'a list \<Rightarrow> 'a list" where
  "insert_left lt a [] = [a]"
| "insert_left lt a (b # bs) =
     (if lt a b then b # insert_left lt a bs else a # b # bs)"

definition sort_Stable :: "('a \<Rightarrow> 'a \<Rightarrow> bool) \<Rightarrow> 'a list \<Rightarrow> 'a list" where
  "sort_Stable lt as = rev (foldl (\<lambda>sorted a. insert_left lt a sorted) [] as)"

type_synonym indexedElement = "nat \<times> Element"

definition indexedElements_Less :: "indexedElement \<Rightarrow> indexedElement \<Rightarrow> bool" where
  "indexedElements_Less a b = Element_Less (snd a) (snd b)"

text \<open>The first loop of \<^verbatim>\<open>Order\<close>, from position \<open>i\<close> on: the indexed non-missing
  elements and the positions of the missing ones.\<close>

fun Order_split :: "nat \<Rightarrow> Element list \<Rightarrow> indexedElement list \<times> nat list" where
  "Order_split i [] = ([], [])"
| "Order_split i (e # es) =
     (let (ie, nasIdx) = Order_split (Suc i) es
      in if Element_IsNA e then (ie, i # nasIdx) else ((i, e) # ie, nasIdx))"

definition series_Order :: "bool \<Rightarrow> series \<Rightarrow> nat list" where
  "series_Order reverse s =
     (let (ie, nasIdx) = Order_split 0 (elements s);
          srt = (if reverse then (\<lambda>a b. indexedElements_Less b a) else indexedElements_Less)
      in map fst (sort_Stable srt ie) @ nasIdx)"

text \<open>
  Position \<open>i\<close> comes before position \<open>j\<close> in the order of the values of \<open>es\<close>: its
  value is the smaller one (the larger one when \<open>reverse\<close>), or neither value is less
  than the other and \<open>i\<close> is the earlier position.
\<close>

definition precedes :: "bool \<Rightarrow> Element list \<Rightarrow> nat \<Rightarrow> nat \<Rightarrow> bool" where
  "precedes reverse es i j =
     (if reverse
      then Element_Less (es ! j) (es ! i) \<or> (\<not> Element_Less (es ! i) (es ! j) \<and> i < j)
      else Element_Less (es ! i) (es ! j) \<or> (\<not> Element_Less (es ! j) (es ! i) \<and> i < j))"

subsection \<open>Reductions\<close>

definition series_StdDev :: "ext \<Rightarrow> series \<Rightarrow> float64" where
  "series_StdDev x s = stat_StdDev x (series_Float x s)"

definition series_Mean :: "ext \<Rightarrow> series \<Rightarrow> float64" where
  "series_Mean x s = stat_Mean x (series_Float x s)"

definition series_Median :: "ext \<Rightarrow> series \<Rightarrow> float64" where
  "series_Median x s =
     (if length (elements s) = 0 \<or> series_Type s = StringT \<or> series_Type s = BoolT
      then math_NaN
      else
        let ix = series_Order False s;
            newElem = map (\<lambda>oldpos. elements s ! oldpos) ix
        in if length newElem mod 2 \<noteq> 0
           then Element_Float x (newElem ! (length newElem div 2))
           else fmul (fadd (Element_Float x (newElem ! (length newElem div 2 - 1)))
                           (Element_Float x (newElem ! (length newElem div 2))))
                     (Fin 0.5))"

definition series_Max :: "ext \<Rightarrow> series \<Rightarrow> float64" where
  "series_Max x s =
     (if length (elements s) = 0 \<or> series_Type s = StringT then math_NaN
      else Element_Float x
             (foldl (\<lambda>max elem. if Element_Greater elem max then elem else max)
                (elements s ! 0) (drop 1 (elements s))))"

definition series_Min :: "ext \<Rightarrow> series \<Rightarrow> float64" where
  "series_Min x s =
     (if length (elements s) = 0 \<or> series_Type s = StringT then math_NaN
      else Element_Float x
             (foldl (\<lambda>min elem. if Element_Less elem min then elem else min)
                (elements s ! 0) (drop 1 (elements s))))"

definition series_Sum :: "ext \<Rightarrow> series \<Rightarrow> float64" where
  "series_Sum x s =
     (if length (elements s) = 0 \<or> series_Type s = StringT then math_NaN
      else let sFloat = series_Float x s in foldl fadd (sFloat ! 0) (drop 1 sFloat))"

text \<open>
  \<^verbatim>\<open>floats.Prod\<close> of the numeric library (\<^verbatim>\<open>gonum/floats\<close>): the product of the
  slice, accumulated from 1, which is what it returns for an empty slice.
\<close>

definition floats_Prod :: "float64 list \<Rightarrow> float64" where
  "floats_Prod fs = foldl fmul (Fin 1) fs"

definition series_Prod :: "ext \<Rightarrow> series \<Rightarrow> float64" where
  "series_Prod x s = floats_Prod (series_Float x s)"

subsection \<open>Indexes and subsets\<close>

text \<open>
  The dynamic values an \<^verbatim>\<open>Indexes\<close> argument can hold: the four supported shapes
  and anything else.
\<close>

datatype Indexes =
    Idx_ints "int list"
  | Idx_int int
  | Idx_bools "bool list"
  | Idx_series series
  | Idx_other

definition parseIndexes_bools :: "nat \<Rightarrow> bool list \<Rightarrow> string + int list" where
  "parseIndexes_bools l bools =
     (if length bools \<noteq> l then Inl ''indexing error: index dimensions mismatch''
      else Inr (map int (filter (\<lambda>i. bools ! i) [0..<length bools])))"

definition parseIndexes :: "ext \<Rightarrow> nat \<Rightarrow> Indexes \<Rightarrow> string + int list" where
  "parseIndexes x l indexes =
     (case indexes of
        Idx_ints idxs \<Rightarrow> Inr idxs
      | Idx_int idxs \<Rightarrow> Inr [idxs]
      | Idx_bools bools \<Rightarrow> parseIndexes_bools l bools
      | Idx_series s \<Rightarrow>
          (case err s of
             Some e \<Rightarrow> Inl (''indexing error: new values has errors: '' @ e)
           | None \<Rightarrow>
               if series_HasNaN s then Inl ''indexing error: indexes contain NaN''
               else if series_Type s = IntT then series_Int x s
               else if series_Type s = BoolT then
                 (case series_Bool x s of
                    Inl e \<Rightarrow> Inl (''indexing error: '' @ e)
                  | Inr bools \<Rightarrow> parseIndexes_bools l bools)
               else Inl ''indexing error: unknown indexing mode'')
      | Idx_other \<Rightarrow> Inl ''indexing error: unknown indexing mode'')"

text \<open>\<^verbatim>\<open>Get\<close> copies \<^verbatim>\<open>e[i]\<close> for each index in turn; the first index out of range
  panics.\<close>

fun Elements_Get :: "Element list \<Rightarrow> int list \<Rightarrow> panic + Element list" where
  "Elements_Get e [] = Inr []"
| "Elements_Get e (i # indexs) =
     (case Elements_Elem e i of
        Inl p \<Rightarrow> Inl p
      | Inr v \<Rightarrow> (case Elements_Get e indexs of Inl p \<Rightarrow> Inl p | Inr vs \<Rightarrow> Inr (v # vs)))"

definition series_Subset :: "ext \<Rightarrow> Indexes \<Rightarrow> series \<Rightarrow> panic + series" where
  "series_Subset x indexes s =
     (if err s \<noteq> None then Inr s
      else case parseIndexes x (series_Len s) indexes of
          Inl e \<Rightarrow> Inr (s\<lparr>err := Some e\<rparr>)
        | Inr idx \<Rightarrow>
            (case Elements_Get (elements s) idx of
               Inl p \<Rightarrow> Inl p
             | Inr es \<Rightarrow> Inr \<lparr>name = name s, elements = es, t = t s, err = None\<rparr>))"

text \<open>\<^verbatim>\<open>Filter\<close>: the elements the function selects, in their order, in a new series
  with an empty error slot.\<close>

definition series_Filter :: "(Element \<Rightarrow> nat \<Rightarrow> bool) \<Rightarrow> series \<Rightarrow> series" where
  "series_Filter ff s =
     \<lparr>name = name s,
      elements = map snd (filter (\<lambda>(i, ele). ff ele i) (enumerate 0 (elements s))),
      t = series_Type s, err = None\<rparr>"

subsection \<open>Quantiles\<close>

definition series_ordered :: "ext \<Rightarrow> series \<Rightarrow> panic + float64 list" where
  "series_ordered x s =
     (case series_Subset x (Idx_ints (map int (series_Order False s))) s of
        Inl p \<Rightarrow> Inl p
      | Inr sub \<Rightarrow> Inr (series_Float x sub))"

definition series_Quantile :: "ext \<Rightarrow> float64 \<Rightarrow> series \<Rightarrow> panic + float64" where
  "series_Quantile x p s =
     (if series_Type s = StringT \<or> series_Len s = 0 then Inr math_NaN
      else if feq p (Fin 0) then Inr (series_Min x s)
      else if feq p (Fin 1) then Inr (series_Max x s)
      else case series_ordered x s of
          Inl pn \<Rightarrow> Inl pn
        | Inr ordered \<Rightarrow> stat_Quantile x p ordered)"

text \<open>The loop of \<^verbatim>\<open>Quantiles\<close>; \<open>ordered\<close> is \<open>None\<close> until the first entry that needs
  the ordered values.\<close>

fun Quantiles_loop ::
  "ext \<Rightarrow> series \<Rightarrow> float64 list option \<Rightarrow> float64 list \<Rightarrow> panic + float64 list" where
  "Quantiles_loop x s ordered [] = Inr []"
| "Quantiles_loop x s ordered (p # ps) =
     (if feq p (Fin 0) then
        (case Quantiles_loop x s ordered ps of
           Inl pn \<Rightarrow> Inl pn | Inr ret \<Rightarrow> Inr (series_Min x s # ret))
      else if feq p (Fin 1) then
        (case Quantiles_loop x s ordered ps of
           Inl pn \<Rightarrow> Inl pn | Inr ret \<Rightarrow> Inr (series_Max x s # ret))
      else
        (case (case ordered of None \<Rightarrow> series_ordered x s | Some ord \<Rightarrow> Inr ord) of
           Inl pn \<Rightarrow> Inl pn
         | Inr ord \<Rightarrow>
             (case stat_Quantile x p ord of
                Inl pn \<Rightarrow> Inl pn
              | Inr q \<Rightarrow>
                  (case Quantiles_loop x s (Some ord) ps of
                     Inl pn \<Rightarrow> Inl pn | Inr ret \<Rightarrow> Inr (q # ret)))))"

definition series_Quantiles :: "ext \<Rightarrow> float64 list \<Rightarrow> series \<Rightarrow> panic + float64 list" where
  "series_Quantiles x ps s =
     (if series_Type s = StringT \<or> series_Len s = 0 then Inr []
      else Quantiles_loop x s None ps)"

fun dataQuantile_loop :: "float64 \<Rightarrow> nat \<Rightarrow> float64 list \<Rightarrow> int \<Rightarrow> float64" where
  "dataQuantile_loop data i [] len = Fin 1"
| "dataQuantile_loop data i (d # ordered) len =
     (if flt data d then fdiv_int (int i) len
      else dataQuantile_loop data (Suc i) ordered len)"

definition dataQuantile :: "float64 \<Rightarrow> float64 list \<Rightarrow> int \<Rightarrow> float64" where
  "dataQuantile data ordered len = dataQuantile_loop data 0 ordered len"

definition series_DataQuantile :: "ext \<Rightarrow> float64 \<Rightarrow> series \<Rightarrow> panic + float64" where
  "series_DataQuantile x data s =
     (if series_Type s = StringT \<or> series_Len s = 0 then Inr math_NaN
      else
        let tmpS = series_Filter (\<lambda>ele index. \<not> Element_IsNA ele) s
        in if series_Len tmpS = 0 then Inr math_NaN
           else case series_ordered x tmpS of
               Inl pn \<Rightarrow> Inl pn
             | Inr ordered \<Rightarrow>
                 (let len = int (length ordered);
                      len = (if len mod 2 = 1 then len + 1 else len)
                  in Inr (dataQuantile data ordered len)))"

section \<open>Reference values\<close>

text \<open>
  The median of a list of elements already in ascending order, in the words of the
  specification: the middle value for an odd count, the average of the two middle values
  for an even count.
\<close>

definition middle_value :: "ext \<Rightarrow> Element list \<Rightarrow> float64" where
  "middle_value x ordered =
     (if odd (length ordered) then Element_Float x (ordered ! (length ordered div 2))
      else fmul (fadd (Element_Float x (ordered ! (length ordered div 2 - 1)))
                      (Element_Float x (ordered ! (length ordered div 2))))
                (Fin 0.5))"

text \<open>
  The rank of a value among the non-missing values \<open>vals\<close> of a series: the number of
  values that are not greater than \<open>data\<close>, over the count of values, the count made even
  by adding one; 1 when no value is greater than \<open>data\<close>; NaN when there is no value.
\<close>

definition rank_below :: "float64 \<Rightarrow> float64 list \<Rightarrow> float64" where
  "rank_below data vals =
     (if vals = [] then math_NaN
      else if list_ex (flt data) vals
        then Fin (real (length (filter (\<lambda>d. \<not> flt data d) vals)) /
                  real (if odd (length vals) then length vals + 1 else length vals))
        else Fin 1)"

section \<open>Sample values\<close>

text \<open>
  An environment of collaborators under which no cross-kind conversion succeeds and the
  statistics of the numeric library are never evaluated, and the series of Int and Float
  kind built from given slots.
\<close>

definition example_ext :: ext where
  "example_ext = \<lparr>ParseFloat = (\<lambda>v. math_NaN), ConvInt = (\<lambda>e. Inl ''unsupported''),
     ConvBool = (\<lambda>e. Inl ''unsupported''), Convert = (\<lambda>k e. missing k),
     stat_Mean = (\<lambda>fs. math_NaN), stat_StdDev = (\<lambda>fs. math_NaN),
     stat_Quantile = (\<lambda>p fs. Inr math_NaN)\<rparr>"

definition example_Ints :: "int option list \<Rightarrow> series" where
  "example_Ints vs = \<lparr>name = ''x'', elements = map intElement vs, t = IntT, err = None\<rparr>"

definition example_Floats :: "float64 list \<Rightarrow> series" where
  "example_Floats vs = \<lparr>name = ''x'', elements = map floatElement vs, t = FloatT, err = None\<rparr>"

section \<open>Properties\<close>

subsection \<open>The order of elements\<close>

lemma flt_trans: "flt a b \<Longrightarrow> flt b c \<Longrightarrow> flt a c"
  by (cases a; cases b; cases c) auto

lemma flt_total: "a \<noteq> math_NaN \<Longrightarrow> b \<noteq> math_NaN \<Longrightarrow> flt a b \<or> a = b \<or> flt b a"
  by (cases a; cases b) auto

lemma flt_irrefl: "\<not> flt a a"
  by (cases a) auto

lemma Element_forms:
  obtains "e = stringElement None" | v where "e = stringElement (Some v)"
    | "e = intElement None" | v where "e = intElement (Some v)"
    | v where "e = floatElement v"
    | "e = boolElement None" | v where "e = boolElement (Some v)"
  by (cases e) auto

lemma Element_Less_trans:
  "Element_Less a b \<Longrightarrow> Element_Less b c \<Longrightarrow> Element_Less a c"
  by (cases a rule: Element_forms; cases b rule: Element_forms; cases c rule: Element_forms)
     (auto intro: flt_trans)

lemma Element_Less_irrefl: "\<not> Element_Less a a"
  by (cases a rule: Element_forms) (auto simp: flt_irrefl)

lemma Element_Less_total:
  "Element_Type a = Element_Type b \<Longrightarrow> \<not> Element_IsNA a \<Longrightarrow> \<not> Element_IsNA b \<Longrightarrow>
     Element_Less a b \<or> a = b \<or> Element_Less b a"
  by (cases a rule: Element_forms; cases b rule: Element_forms) (auto dest: flt_total)

lemma Element_Less_asym: "Element_Less a b \<Longrightarrow> \<not> Element_Less b a"
  using Element_Less_trans Element_Less_irrefl by blast

subsection \<open>Stable sorting\<close>

lemma set_insert_left: "set (insert_left lt a bs) = insert a (set bs)"
  by (induction bs) auto

lemma mset_insert_left: "mset (insert_left lt a bs) = add_mset a (mset bs)"
  by (induction bs) auto

lemma sorted_insert_left:
  assumes "sorted_wrt (\<lambda>p q. R q p) bs"
    and "\<forall>b\<in>set bs. (lt a b \<longrightarrow> R a b) \<and> (\<not> lt a b \<longrightarrow> R b a)"
    and "transp_on (insert a (set bs)) R"
  shows "sorted_wrt (\<lambda>p q. R q p) (insert_left lt a bs)"
  using assms
proof (induction bs)
  case Nil
  then show ?case by simp
next
  case (Cons b bs)
  have tr: "transp_on (insert a (set bs)) R"
    using Cons.prems(3) by (rule transp_on_subset) auto
  show ?case
  proof (cases "lt a b")
    case True
    have "sorted_wrt (\<lambda>p q. R q p) (insert_left lt a bs)"
      using Cons.prems(1,2) tr by (intro Cons.IH) simp_all
    moreover have "R a b" using True Cons.prems(2) by simp
    ultimately show ?thesis
      using True Cons.prems(1) by (simp add: set_insert_left)
  next
    case False
    then have ba: "R b a" using Cons.prems(2) by simp
    have "R q a" if "q \<in> set bs" for q
    proof -
      from that Cons.prems(1) have "R q b" by simp
      then show ?thesis
        using transp_onD [OF Cons.prems(3) _ _ _ _ ba, of q] that by simp
    qed
    with ba False Cons.prems(1) show ?thesis by simp
  qed
qed

lemma sorted_foldl_insert_left:
  assumes "sorted_wrt (\<lambda>p q. R q p) acc"
    and "sorted_wrt (\<lambda>b a. (lt a b \<longrightarrow> R a b) \<and> (\<not> lt a b \<longrightarrow> R b a)) as"
    and "\<forall>b\<in>set acc. \<forall>a\<in>set as. (lt a b \<longrightarrow> R a b) \<and> (\<not> lt a b \<longrightarrow> R b a)"
    and "transp_on (set acc \<union> set as) R"
  shows "sorted_wrt (\<lambda>p q. R q p) (foldl (\<lambda>sorted a. insert_left lt a sorted) acc as)"
  using assms
proof (induction as arbitrary: acc)
  case Nil
  then show ?case by simp
next
  case (Cons a as)
  have "transp_on (insert a (set acc)) R"
    using Cons.prems(4) by (rule transp_on_subset) auto
  moreover have "\<forall>b\<in>set acc. (lt a b \<longrightarrow> R a b) \<and> (\<not> lt a b \<longrightarrow> R b a)"
    using Cons.prems(3) by simp
  ultimately have s1: "sorted_wrt (\<lambda>p q. R q p) (insert_left lt a acc)"
    using Cons.prems(1) by (intro sorted_insert_left)
  have s2: "sorted_wrt (\<lambda>b a. (lt a b \<longrightarrow> R a b) \<and> (\<not> lt a b \<longrightarrow> R b a)) as"
    using Cons.prems(2) by simp
  have s3: "\<forall>b\<in>set (insert_left lt a acc). \<forall>a\<in>set as.
              (lt a b \<longrightarrow> R a b) \<and> (\<not> lt a b \<longrightarrow> R b a)"
    using Cons.prems(2,3) by (simp add: set_insert_left)
  have s4: "transp_on (set (insert_left lt a acc) \<union> set as) R"
    using Cons.prems(4) by (rule transp_on_subset) (auto simp: set_insert_left)
  have "sorted_wrt (\<lambda>p q. R q p)
          (foldl (\<lambda>sorted a. insert_left lt a sorted) (insert_left lt a acc) as)"
    using s1 s2 s3 s4 by (rule Cons.IH)
  then show ?case by simp
qed

lemma mset_foldl_insert_left:
  "mset (foldl (\<lambda>sorted a. insert_left lt a sorted) acc as) = mset acc + mset as"
  by (induction as arbitrary: acc) (simp_all add: mset_insert_left)

lemma mset_sort_Stable: "mset (sort_Stable lt as) = mset as"
  by (simp add: sort_Stable_def mset_foldl_insert_left)

lemma sorted_sort_Stable:
  assumes "sorted_wrt (\<lambda>b a. (lt a b \<longrightarrow> R a b) \<and> (\<not> lt a b \<longrightarrow> R b a)) as"
    and "transp_on (set as) R"
  shows "sorted_wrt R (sort_Stable lt as)"
proof -
  have "sorted_wrt (\<lambda>p q. R q p) (foldl (\<lambda>sorted a. insert_left lt a sorted) [] as)"
    using assms by (intro sorted_foldl_insert_left) simp_all
  then show ?thesis
    by (simp add: sort_Stable_def sorted_wrt_rev)
qed

subsection \<open>Order\<close>

lemma Order_split_eq:
  "Order_split i es =
     (filter (\<lambda>p. \<not> Element_IsNA (snd p)) (enumerate i es),
      map fst (filter (\<lambda>p. Element_IsNA (snd p)) (enumerate i es)))"
  by (induction es arbitrary: i) (simp_all add: Let_def)

lemma enumerate_nth: "enumerate 0 es = map (\<lambda>j. (j, es ! j)) [0..<length es]"
  by (rule nth_equalityI) (simp_all add: nth_enumerate_eq)

lemma map_fst_filter_enumerate:
  "map fst (filter (\<lambda>p. P (snd p)) (enumerate 0 es)) = filter (\<lambda>j. P (es ! j)) [0..<length es]"
  by (simp add: enumerate_nth filter_map comp_def)

lemma sorted_fst_enumerate: "sorted_wrt (\<lambda>p q. fst p < fst q) (enumerate i es)"
  by (induction es arbitrary: i) (auto simp: in_set_enumerate_eq)

lemma transp_on_precedes:
  assumes "\<forall>i\<in>A. i < length es \<and> Element_Type (es ! i) = k \<and> \<not> Element_IsNA (es ! i)"
  shows "transp_on A (precedes r es)"
proof (rule transp_onI)
  fix a b c
  assume mem: "a \<in> A" "b \<in> A" "c \<in> A"
    and ab: "precedes r es a b" and bc: "precedes r es b c"
  have tab: "Element_Less (es ! a) (es ! b) \<or> es ! a = es ! b \<or> Element_Less (es ! b) (es ! a)"
    using assms mem by (intro Element_Less_total) simp_all
  have tbc: "Element_Less (es ! b) (es ! c) \<or> es ! b = es ! c \<or> Element_Less (es ! c) (es ! b)"
    using assms mem by (intro Element_Less_total) simp_all
  show "precedes r es a c"
  proof (cases r)
    case True
    with ab bc tab tbc show ?thesis
      unfolding precedes_def
      by (smt (verit) Element_Less_trans Element_Less_irrefl less_trans)
  next
    case False
    with ab bc tab tbc show ?thesis
      unfolding precedes_def
      by (smt (verit) Element_Less_trans Element_Less_irrefl less_trans)
  qed
qed

lemma in_nonmissing_enumerate:
  assumes "p \<in> set (filter (\<lambda>p. \<not> Element_IsNA (snd p)) (enumerate 0 es))"
  shows "fst p < length es" and "snd p = es ! fst p" and "\<not> Element_IsNA (es ! fst p)"
  using assms by (auto simp: in_set_enumerate_eq)

lemma Order_char:
  assumes wf: "wf_series s"
  shows "\<exists>ps. series_Order r s =
            ps @ filter (\<lambda>i. Element_IsNA (elements s ! i)) [0..<length (elements s)] \<and>
          mset ps = mset (filter (\<lambda>i. \<not> Element_IsNA (elements s ! i)) [0..<length (elements s)]) \<and>
          sorted_wrt (precedes r (elements s)) ps"
proof -
  define es where "es = elements s"
  define ie where "ie = filter (\<lambda>p. \<not> Element_IsNA (snd p)) (enumerate 0 es)"
  define srt where "srt = (if r then (\<lambda>a b. indexedElements_Less b a) else indexedElements_Less)"
  define R where "R = (\<lambda>(p::indexedElement) (q::indexedElement). precedes r es (fst p) (fst q))"
  define ps where "ps = map fst (sort_Stable srt ie)"
  have ord: "series_Order r s = ps @ filter (\<lambda>i. Element_IsNA (es ! i)) [0..<length es]"
    by (simp add: series_Order_def Order_split_eq map_fst_filter_enumerate
        es_def ie_def srt_def ps_def)
  have "mset ps = mset (map fst ie)"
    unfolding ps_def mset_map by (simp add: mset_sort_Stable)
  moreover have "map fst ie = filter (\<lambda>i. \<not> Element_IsNA (es ! i)) [0..<length es]"
    unfolding ie_def by (rule map_fst_filter_enumerate)
  ultimately have perm:
    "mset ps = mset (filter (\<lambda>i. \<not> Element_IsNA (es ! i)) [0..<length es])"
    by (simp only:)
  have "sorted_wrt (\<lambda>p q. fst p < fst q) ie"
    unfolding ie_def by (rule sorted_wrt_filter) (rule sorted_fst_enumerate)
  then have q: "sorted_wrt (\<lambda>b a. (srt a b \<longrightarrow> R a b) \<and> (\<not> srt a b \<longrightarrow> R b a)) ie"
  proof (rule sorted_wrt_mono_rel [rotated])
    fix b a
    assume mem: "b \<in> set ie" "a \<in> set ie" and lt: "fst b < fst a"
    have "snd b = es ! fst b" "snd a = es ! fst a"
      using mem in_nonmissing_enumerate(2) [of b es] in_nonmissing_enumerate(2) [of a es]
      unfolding ie_def by blast+
    with lt show "(srt a b \<longrightarrow> R a b) \<and> (\<not> srt a b \<longrightarrow> R b a)"
      by (simp add: srt_def R_def precedes_def indexedElements_Less_def)
  qed
  have "\<forall>i\<in>fst ` set ie. i < length es \<and> Element_Type (es ! i) = t s \<and> \<not> Element_IsNA (es ! i)"
  proof
    fix i assume "i \<in> fst ` set ie"
    then obtain p where p: "p \<in> set ie" "i = fst p" by auto
    then have "i < length es" "\<not> Element_IsNA (es ! i)"
      unfolding ie_def using in_nonmissing_enumerate(1,3) [of p es] by simp_all
    moreover from wf \<open>i < length es\<close> have "Element_Type (es ! i) = t s"
      by (simp add: wf_series_def es_def list_all_length)
    ultimately show "i < length es \<and> Element_Type (es ! i) = t s \<and> \<not> Element_IsNA (es ! i)"
      by simp
  qed
  then have tr: "transp_on (fst ` set ie) (precedes r es)"
    by (rule transp_on_precedes)
  have "transp_on (set ie) R"
  proof (rule transp_onI)
    fix a b c
    assume "a \<in> set ie" "b \<in> set ie" "c \<in> set ie" "R a b" "R b c"
    then show "R a c"
      unfolding R_def using transp_onD [OF tr, of "fst a" "fst b" "fst c"] by simp
  qed
  with q have "sorted_wrt R (sort_Stable srt ie)"
    by (rule sorted_sort_Stable)
  then have "sorted_wrt (precedes r es) ps"
    by (simp add: ps_def R_def sorted_wrt_map)
  with ord perm show ?thesis
    unfolding es_def by blast
qed

text \<open>
  C6. \<^verbatim>\<open>Order(reverse)\<close> lists the positions of the non-missing elements, each exactly
  once, in ascending order of their values (descending when \<open>reverse\<close>), positions of
  tied values in their original order, followed by the positions of the missing elements
  in their original order.
\<close>

theorem Order_missing_last:
  "wf_series s \<Longrightarrow>
     \<exists>ps. series_Order reverse s =
            ps @ filter (\<lambda>i. Element_IsNA (elements s ! i)) [0..<length (elements s)] \<and>
          mset ps = mset (filter (\<lambda>i. \<not> Element_IsNA (elements s ! i)) [0..<length (elements s)]) \<and>
          sorted_wrt (precedes reverse (elements s)) ps"
  by (rule Order_char)

theorem Order_missing_last_witness:
  "wf_series (example_Ints [Some 3, None, Some 1, Some 3, None, Some 2]) \<and>
   (\<exists>ps. series_Order True (example_Ints [Some 3, None, Some 1, Some 3, None, Some 2]) = ps @ [1, 4] \<and>
      mset ps = mset [0, 2, 3, 5] \<and>
      sorted_wrt (precedes True (elements (example_Ints [Some 3, None, Some 1, Some 3, None, Some 2]))) ps) \<and>
   series_Order False (example_Ints [Some 3, None, Some 1, Some 3, None, Some 2]) = [2, 5, 0, 3, 1, 4] \<and>
   series_Order True (example_Ints [Some 3, None, Some 1, Some 3, None, Some 2]) = [0, 3, 5, 2, 1, 4]"
proof -
  let ?s = "example_Ints [Some 3, None, Some 1, Some 3, None, Some 2]"
  have wf: "wf_series ?s"
    by (simp add: wf_series_def example_Ints_def)
  have upt: "[0..<length (elements ?s)] = [0, 1, 2, 3, 4, 5]"
    by (simp add: example_Ints_def upt_rec)
  have na: "filter (\<lambda>i. Element_IsNA (elements ?s ! i)) [0..<length (elements ?s)] = [1, 4]"
    unfolding upt by (simp add: example_Ints_def)
  have nna: "filter (\<lambda>i. \<not> Element_IsNA (elements ?s ! i)) [0..<length (elements ?s)] = [0, 2, 3, 5]"
    unfolding upt by (simp add: example_Ints_def)
  have o1: "series_Order False ?s = [2, 5, 0, 3, 1, 4]"
    by (simp add: series_Order_def example_Ints_def sort_Stable_def indexedElements_Less_def)
  have o2: "series_Order True ?s = [0, 3, 5, 2, 1, 4]"
    by (simp add: series_Order_def example_Ints_def sort_Stable_def indexedElements_Less_def)
  from Order_missing_last [OF wf, of True] wf o1 o2 show ?thesis
    unfolding na nna by simp
qed

subsection \<open>Reductions and quantiles\<close>

text \<open>
  C10. On an empty series of any kind \<^verbatim>\<open>Prod()\<close> is 1, where \<^verbatim>\<open>Sum\<close>, \<^verbatim>\<open>Min\<close>,
  \<^verbatim>\<open>Max\<close> and \<^verbatim>\<open>Median\<close> are NaN.
\<close>

theorem Prod_empty:
  "elements s = [] \<Longrightarrow>
     series_Prod x s = Fin 1 \<and> series_Sum x s = math_NaN \<and> series_Min x s = math_NaN \<and>
     series_Max x s = math_NaN \<and> series_Median x s = math_NaN"
  by (simp add: series_Prod_def floats_Prod_def series_Float_def series_Sum_def
      series_Min_def series_Max_def series_Median_def)

lemma feq_Fin [simp]: "feq p (Fin a) \<longleftrightarrow> p = Fin a"
  by (cases p) auto

lemma Quantiles_loop_boundary:
  "Quantiles_loop x s ordered ps = Inr rs \<Longrightarrow>
     length rs = length ps \<and>
     (\<forall>i<length ps. (ps ! i = Fin 0 \<longrightarrow> rs ! i = series_Min x s) \<and>
                     (ps ! i = Fin 1 \<longrightarrow> rs ! i = series_Max x s))"
proof (induction ps arbitrary: ordered rs)
  case Nil
  then show ?case by simp
next
  case (Cons p ps)
  from Cons.prems obtain r rs' ordered' where rs: "rs = r # rs'"
    and rest: "Quantiles_loop x s ordered' ps = Inr rs'"
    and hd: "(p = Fin 0 \<longrightarrow> r = series_Min x s) \<and> (p = Fin 1 \<longrightarrow> r = series_Max x s)"
    by (auto split: if_splits sum.splits)
  from Cons.IH [OF rest] rs hd show ?case
    by (auto simp: nth_Cons split: nat.splits)
qed

lemma Quantiles_loop_total:
  "list_all (\<lambda>p. p = Fin 0 \<or> p = Fin 1) ps \<Longrightarrow>
     Quantiles_loop x s ordered ps =
       Inr (map (\<lambda>p. if p = Fin 0 then series_Min x s else series_Max x s) ps)"
  by (induction ps) auto

text \<open>
  C7. On a non-empty series that is not of String kind, \<^verbatim>\<open>Quantile(0)\<close> is \<^verbatim>\<open>Min()\<close> and
  \<^verbatim>\<open>Quantile(1)\<close> is \<^verbatim>\<open>Max()\<close>; every entry 0 or 1 of \<^verbatim>\<open>Quantiles\<close> yields the same
  values in its place, and \<^verbatim>\<open>Quantiles\<close> returns whenever all entries are 0 or 1.
\<close>

theorem Quantile_boundary:
  "series_Type s \<noteq> StringT \<Longrightarrow> series_Len s \<noteq> 0 \<Longrightarrow>
     series_Quantile x (Fin 0) s = Inr (series_Min x s) \<and>
     series_Quantile x (Fin 1) s = Inr (series_Max x s) \<and>
     (\<forall>rs i. series_Quantiles x ps s = Inr rs \<longrightarrow> i < length ps \<longrightarrow>
        (ps ! i = Fin 0 \<longrightarrow> rs ! i = series_Min x s) \<and>
        (ps ! i = Fin 1 \<longrightarrow> rs ! i = series_Max x s)) \<and>
     (list_all (\<lambda>p. p = Fin 0 \<or> p = Fin 1) ps \<longrightarrow>
        series_Quantiles x ps s =
          Inr (map (\<lambda>p. if p = Fin 0 then series_Min x s else series_Max x s) ps))"
  using Quantiles_loop_boundary [of x s None ps]
  by (simp add: series_Quantile_def series_Quantiles_def Quantiles_loop_total)

theorem Prod_empty_witness:
  "elements (example_Ints []) = [] \<and> series_Prod example_ext (example_Ints []) = Fin 1 \<and>
   series_Sum example_ext (example_Ints []) = math_NaN"
  using Prod_empty [of "example_Ints []" example_ext]
  by (simp add: example_Ints_def)

theorem Quantile_boundary_witness:
  "series_Type (example_Ints [Some 3, Some 1, Some 2]) \<noteq> StringT \<and>
   series_Len (example_Ints [Some 3, Some 1, Some 2]) \<noteq> 0 \<and>
   series_Quantile example_ext (Fin 0) (example_Ints [Some 3, Some 1, Some 2]) = Inr (Fin 1) \<and>
   series_Quantile example_ext (Fin 1) (example_Ints [Some 3, Some 1, Some 2]) = Inr (Fin 3) \<and>
   series_Quantiles example_ext [Fin 1, Fin 0] (example_Ints [Some 3, Some 1, Some 2]) =
     Inr [Fin 3, Fin 1]"
proof -
  let ?s = "example_Ints [Some 3, Some 1, Some 2]"
  have ty: "series_Type ?s \<noteq> StringT" and len: "series_Len ?s \<noteq> 0"
    by (simp_all add: series_Type_def series_Len_def example_Ints_def)
  have mn: "series_Min example_ext ?s = Fin 1"
    by (simp add: series_Min_def series_Type_def example_Ints_def)
  have mx: "series_Max example_ext ?s = Fin 3"
    by (simp add: series_Max_def series_Type_def example_Ints_def Element_Greater_def)
  from Quantile_boundary [OF ty len, of example_ext "[Fin 1, Fin 0]"] ty len show ?thesis
    by (simp add: mn mx)
qed

subsection \<open>Element access\<close>

text \<open>
  C9. For a series of length \<open>n\<close> and an index \<open>i\<close> with \<open>-n \<le> i < 0\<close>, \<^verbatim>\<open>Elem(i)\<close>
  returns the element at position \<open>n + i\<close>, without a panic; \<^verbatim>\<open>Elem(-1)\<close> is the last
  element.
\<close>

theorem Elem_negative_index:
  "- int (series_Len s) \<le> i \<Longrightarrow> i < 0 \<Longrightarrow>
     series_Elem s i = Inr (elements s ! nat (int (series_Len s) + i)) \<and>
     (i = - 1 \<longrightarrow> series_Elem s i = Inr (last (elements s)))"
proof -
  assume lo: "- int (series_Len s) \<le> i" and neg: "i < 0"
  have pos: "series_Elem s i = Inr (elements s ! nat (int (series_Len s) + i))"
    using lo neg by (simp add: series_Elem_def Elements_Elem_def series_Len_def)
  have "series_Elem s i = Inr (last (elements s))" if "i = - 1"
  proof -
    from lo that have ne: "elements s \<noteq> []"
      by (auto simp: series_Len_def)
    have "nat (int (length (elements s)) - 1) = length (elements s) - 1"
      by simp
    with ne that show ?thesis
      by (simp add: series_Elem_def Elements_Elem_def series_Len_def last_conv_nth)
  qed
  with pos show ?thesis by blast
qed

theorem Elem_negative_index_witness:
  "- int (series_Len \<lparr>name = ''x'', elements = [intElement (Some 7), intElement (Some 8),
       intElement (Some 9)], t = IntT, err = None\<rparr>) \<le> - 1 \<and> (- 1 :: int) < 0 \<and>
   series_Elem \<lparr>name = ''x'', elements = [intElement (Some 7), intElement (Some 8),
       intElement (Some 9)], t = IntT, err = None\<rparr> (- 1) = Inr (intElement (Some 9))"
  using Elem_negative_index [of "\<lparr>name = ''x'', elements = [intElement (Some 7),
       intElement (Some 8), intElement (Some 9)], t = IntT, err = None\<rparr>" "- 1"]
  by (simp add: series_Len_def)

end
